theory Spec2Isabelle
  imports Complex_Main "HOL-Library.AList"
begin

section \<open>Python values, exceptions and external calls\<close>

text \<open>
  The server is Python. Exceptions are values of the type \<open>exn\<close>; a function that can
  raise returns \<open>exn + 'a\<close>, with \<open>Inl\<close> for the raised exception. \<open>ExternalError m\<close> is an
  exception raised inside a library the server calls (Nomic, Qdrant, OpenRouter, Celery, the
  file system); \<open>m\<close> is its \<open>str(e)\<close>.
\<close>

datatype exn =
    Exception string
  | ValueError string
  | KeyError string
  | IndexError string
  | ValidationError string
  | ExternalError string

text \<open>\<open>str(e)\<close>; a \<open>KeyError\<close> prints the repr of its key.\<close>

fun str_exn :: "exn \<Rightarrow> string" where
  "str_exn (Exception m) = m"
| "str_exn (ValueError m) = m"
| "str_exn (KeyError k) = [CHR 0x27] @ k @ [CHR 0x27]"
| "str_exn (IndexError m) = m"
| "str_exn (ValidationError m) = m"
| "str_exn (ExternalError m) = m"

text \<open>\<open>str(n)\<close> for a non-negative integer, as the f-strings of the source print it.\<close>

definition nl :: string where
  "nl = [CHR 0x0A]"

definition digit_char :: "nat \<Rightarrow> char" where
  "digit_char d = char_of (48 + d)"

function str_nat :: "nat \<Rightarrow> string" where
  "str_nat n = (if n < 10 then [digit_char n] else str_nat (n div 10) @ [digit_char (n mod 10)])"
  by pat_completeness auto
termination
  by (relation "measure id") auto

declare str_nat.simps [simp del]

definition str_int :: "int \<Rightarrow> string" where
  "str_int i = (if i < 0 then ''-'' @ str_nat (nat (- i)) else str_nat (nat i))"

text \<open>Values stored in a Qdrant payload or a JSON task result.\<close>

datatype json = JNull | JStr string | JInt int

type_synonym payload = "string \<rightharpoonup> json"

text \<open>
  Every call that leaves the process is recorded, in order, so that a theorem can say which
  collaborator was reached, with which arguments, and which was not.
\<close>

datatype task_type = search_document | search_query

datatype FieldCondition = FieldCondition (key: string) (match_value: string)

datatype Filter = Filter (must: "FieldCondition list")

record PointStruct =
  point_id :: string
  point_vector :: "real list"
  point_payload :: payload

record ScoredPoint =
  sp_payload :: payload
  sp_score :: real

type_synonym message = "string \<times> string"

datatype call =
    EmbedText "string list" task_type
  | QdrantSearch "real list" "Filter option" int real
  | QdrantScroll Filter nat
  | QdrantUpsert "PointStruct list"
  | ChatCompletion "message list"
  | DeleteFile string

text \<open>What \<open>embed.text\<close> of the Nomic client gives back: it raises, or it returns a
  response that is empty or has no \<open>embeddings\<close> key, or it returns the embeddings.\<close>

datatype nomic_result =
    NomicRaises exn
  | NomicInvalid
  | NomicEmbeddings "real list list"

text \<open>
  The collaborators of one request or one ingestion attempt. They are parameters of the
  model: the theorems hold for every behaviour of them, unless a hypothesis says otherwise.
  \<open>embed_text\<close> is \<open>embed.text\<close> of the Nomic client; \<open>client_search\<close>, \<open>client_scroll\<close> and
  \<open>client_upsert\<close> are the Qdrant client; \<open>completions_create\<close> is the chat completion of the
  OpenRouter client and gives the contents of the choices; \<open>split_text\<close> is the LangChain
  splitter; \<open>uuid4 i\<close> is the identifier drawn for the point of index \<open>i\<close>;
  \<open>format_status\<close> is how an f-string prints a \<open>ProcessingStatus\<close>, \<open>format_score\<close> how it
  prints a float with \<open>:.2f\<close>; the two \<open>initialize\<close> fields and \<open>extract_text_from_pdf\<close> are
  what the worker's services answer.
\<close>

datatype ProcessingStatus = UPLOADING | PROCESSING | COMPLETED | FAILED

text \<open>The metadata \<open>_extract_text_sync\<close> builds: the four counters and paths, and the title,
  author, subject and creator when the PDF has a metadata block.\<close>

record pdf_metadata =
  md_page_count :: nat
  md_text_length :: nat
  md_file_size :: nat
  md_file_path :: string
  md_info :: "(string \<times> string \<times> string \<times> string) option"

record env =
  embed_text :: "string list \<Rightarrow> task_type \<Rightarrow> nomic_result"
  client_search :: "real list \<Rightarrow> Filter option \<Rightarrow> int \<Rightarrow> real \<Rightarrow> exn + ScoredPoint list"
  client_scroll :: "Filter \<Rightarrow> nat \<Rightarrow> exn + ScoredPoint list"
  client_upsert :: "PointStruct list \<Rightarrow> exn option"
  completions_create :: "message list \<Rightarrow> exn + string list"
  split_text :: "string \<Rightarrow> string list"
  uuid4 :: "nat \<Rightarrow> string"
  format_status :: "ProcessingStatus \<Rightarrow> string"
  format_score :: "real \<Rightarrow> string"
  doc_processor_initialize :: "exn option"
  vector_store_initialize :: "exn option"
  extract_text_from_pdf :: "string \<Rightarrow> exn + string \<times> pdf_metadata"

section \<open>Embedding gateway (app/services/embeddings.py)\<close>

definition dimension :: nat where
  "dimension = 768"

text \<open>The validation loop of \<open>_generate_embeddings_sync\<close>; \<open>i\<close> is the index \<open>enumerate\<close>
  gives.\<close>

definition dimension_message :: "nat \<Rightarrow> nat \<Rightarrow> string" where
  "dimension_message i n =
     ''Unexpected embedding dimension for text '' @ str_nat i @ '': '' @ str_nat n
     @ '' != '' @ str_nat dimension"

fun validate_dimensions :: "nat \<Rightarrow> real list list \<Rightarrow> exn option" where
  "validate_dimensions i [] = None"
| "validate_dimensions i (embedding # rest) =
     (if length embedding \<noteq> dimension
      then Some (ValueError (dimension_message i (length embedding)))
      else validate_dimensions (Suc i) rest)"

definition generate_embeddings_sync :: "env \<Rightarrow> string list \<Rightarrow> (exn + real list list) \<times> call list" where
  "generate_embeddings_sync e texts =
     (case (case embed_text e texts search_document of
              NomicRaises x \<Rightarrow> Inl x
            | NomicInvalid \<Rightarrow> Inl (ValueError ''Invalid response from Nomic API'')
            | NomicEmbeddings embeddings \<Rightarrow>
                (case validate_dimensions 0 embeddings of
                   Some x \<Rightarrow> Inl x
                 | None \<Rightarrow> Inr embeddings))
      of Inl x \<Rightarrow> Inl (Exception (''Nomic embedding generation failed: '' @ str_exn x))
       | Inr r \<Rightarrow> Inr r,
      [EmbedText texts search_document])"

definition get_embeddings :: "env \<Rightarrow> string list \<Rightarrow> (exn + real list list) \<times> call list" where
  "get_embeddings e texts =
     (if texts = [] then (Inr [], []) else generate_embeddings_sync e texts)"

definition generate_query_embedding_sync :: "env \<Rightarrow> string \<Rightarrow> (exn + real list) \<times> call list" where
  "generate_query_embedding_sync e query =
     (case (case embed_text e [query] search_query of
              NomicRaises x \<Rightarrow> Inl x
            | NomicInvalid \<Rightarrow> Inl (ValueError ''Invalid response from Nomic API'')
            | NomicEmbeddings [] \<Rightarrow> Inl (ValueError ''Invalid response from Nomic API'')
            | NomicEmbeddings (embedding # _) \<Rightarrow>
                (if length embedding \<noteq> dimension
                 then Inl (ValueError (''Unexpected embedding dimension: ''
                        @ str_nat (length embedding) @ '' != '' @ str_nat dimension))
                 else Inr embedding))
      of Inl x \<Rightarrow> Inl (Exception (''Nomic query embedding generation failed: '' @ str_exn x))
       | Inr r \<Rightarrow> Inr r,
      [EmbedText [query] search_query])"

definition get_query_embedding :: "env \<Rightarrow> string \<Rightarrow> (exn + real list) \<times> call list" where
  "get_query_embedding e query = generate_query_embedding_sync e query"

section \<open>Index store gateway (app/services/vector_store.py)\<close>

text \<open>\<open>payload[k]\<close> raises \<open>KeyError\<close> on a missing key.\<close>

definition getitem :: "payload \<Rightarrow> string \<Rightarrow> exn + json" where
  "getitem p k = (case p k of None \<Rightarrow> Inl (KeyError k) | Some v \<Rightarrow> Inr v)"

text \<open>The payload of the point of chunk \<open>i\<close>: the five fixed keys, then the caller's metadata
  spread over them (\<open>**(metadata or {})\<close>), so a key of the metadata wins.\<close>

definition point_metadata :: "string \<Rightarrow> string \<Rightarrow> nat \<Rightarrow> string \<Rightarrow> payload option \<Rightarrow> payload" where
  "point_metadata document_id filename i chunk metadata =
     [''document_id'' \<mapsto> JStr document_id,
      ''filename'' \<mapsto> JStr filename,
      ''chunk_index'' \<mapsto> JInt (int i),
      ''content'' \<mapsto> JStr chunk,
      ''chunk_size'' \<mapsto> JInt (int (length chunk))]
     ++ (case metadata of None \<Rightarrow> Map.empty | Some m \<Rightarrow> m)"

definition build_points ::
  "env \<Rightarrow> string \<Rightarrow> string \<Rightarrow> payload option \<Rightarrow> string list \<Rightarrow> real list list \<Rightarrow> PointStruct list" where
  "build_points e document_id filename metadata chunks embeddings =
     map (\<lambda>(i, chunk, embedding).
            \<lparr>point_id = uuid4 e i, point_vector = embedding,
             point_payload = point_metadata document_id filename i chunk metadata\<rparr>)
         (enumerate 0 (zip chunks embeddings))"

text \<open>The batches \<open>points[i:i + batch_size]\<close> for \<open>i\<close> in \<open>range(0, len(points), batch_size)\<close>.\<close>

definition batch_size :: nat where
  "batch_size = 100"

function split_batches :: "'a list \<Rightarrow> 'a list list" where
  "split_batches points =
     (if points = [] then [] else take batch_size points # split_batches (drop batch_size points))"
  by pat_completeness auto
termination
  by (relation "measure length") (auto simp: batch_size_def)

declare split_batches.simps [simp del]

text \<open>The upload loop: a batch that raises ends it, the batches before it stay written.\<close>

fun upsert_batches :: "env \<Rightarrow> PointStruct list list \<Rightarrow> exn option \<times> call list" where
  "upsert_batches e [] = (None, [])"
| "upsert_batches e (batch # rest) =
     (case client_upsert e batch of
        Some x \<Rightarrow> (Some x, [QdrantUpsert batch])
      | None \<Rightarrow> (case upsert_batches e rest of (r, cs) \<Rightarrow> (r, QdrantUpsert batch # cs)))"

text \<open>\<open>process_document\<close> of the vector store: split, embed, build the points, upload them.
  The value is the number of chunks, or the exception, and the calls made.\<close>

definition process_document ::
  "env \<Rightarrow> string \<Rightarrow> string \<Rightarrow> string \<Rightarrow> payload option \<Rightarrow> (exn + nat) \<times> call list" where
  "process_document e document_id text filename metadata =
     (let chunks = split_text e text in
      if chunks = [] then (Inr 0, [])
      else
        (case get_embeddings e chunks of
           (Inl x, cs) \<Rightarrow> (Inl x, cs)
         | (Inr embeddings, cs) \<Rightarrow>
             (case upsert_batches e
                     (split_batches (build_points e document_id filename metadata chunks embeddings)) of
                (Some x, cs') \<Rightarrow> (Inl x, cs @ cs')
              | (None, cs') \<Rightarrow> (Inr (length chunks), cs @ cs'))))"

text \<open>The search filter: \<open>if document_id:\<close> is false for \<open>None\<close> and for the empty string.\<close>

definition search_filter_of :: "string option \<Rightarrow> Filter option" where
  "search_filter_of document_id =
     (case document_id of
        None \<Rightarrow> None
      | Some d \<Rightarrow> if d = [] then None else Some (Filter [FieldCondition ''document_id'' d]))"

text \<open>A formatted result: the four keys read from the payload, the score, and the rest of
  the payload as metadata.\<close>

record hit =
  hit_content :: json
  hit_document_id :: json
  hit_filename :: json
  hit_chunk_index :: json
  hit_score :: real
  hit_metadata :: payload

definition format_result :: "ScoredPoint \<Rightarrow> exn + hit" where
  "format_result r =
     (case getitem (sp_payload r) ''content'' of Inl x \<Rightarrow> Inl x | Inr c \<Rightarrow>
     (case getitem (sp_payload r) ''document_id'' of Inl x \<Rightarrow> Inl x | Inr d \<Rightarrow>
     (case getitem (sp_payload r) ''filename'' of Inl x \<Rightarrow> Inl x | Inr f \<Rightarrow>
     (case getitem (sp_payload r) ''chunk_index'' of Inl x \<Rightarrow> Inl x | Inr i \<Rightarrow>
        Inr \<lparr>hit_content = c, hit_document_id = d, hit_filename = f, hit_chunk_index = i,
             hit_score = sp_score r,
             hit_metadata = (sp_payload r) |` (- {''content'', ''document_id'', ''filename'', ''chunk_index''})\<rparr>))))"

fun format_results :: "ScoredPoint list \<Rightarrow> exn + hit list" where
  "format_results [] = Inr []"
| "format_results (r # rs) =
     (case format_result r of
        Inl x \<Rightarrow> Inl x
      | Inr h \<Rightarrow> (case format_results rs of Inl x \<Rightarrow> Inl x | Inr hs \<Rightarrow> Inr (h # hs)))"

text \<open>\<open>search_similar\<close>. The debug line reads \<open>query_embedding[0]\<close> inside an f-string, which
  raises \<open>IndexError\<close> when the provider answered with no vector at all.\<close>

definition search_similar ::
  "env \<Rightarrow> string \<Rightarrow> string option \<Rightarrow> int \<Rightarrow> real \<Rightarrow> (exn + hit list) \<times> call list" where
  "search_similar e query document_id limit score_threshold =
     (case get_embeddings e [query] of
        (Inl x, cs) \<Rightarrow> (Inl x, cs)
      | (Inr query_embedding, cs) \<Rightarrow>
          (case query_embedding of
             [] \<Rightarrow> (Inl (IndexError ''list index out of range''), cs)
           | v # _ \<Rightarrow>
               (let search_filter = search_filter_of document_id;
                    cs' = cs @ [QdrantSearch v search_filter limit score_threshold]
                in case client_search e v search_filter limit score_threshold of
                     Inl x \<Rightarrow> (Inl x, cs')
                   | Inr search_results \<Rightarrow> (format_results search_results, cs'))))"

record doc_stats =
  chunk_count :: nat
  total_content_length :: nat

text \<open>\<open>len(chunk.payload.get("content", ""))\<close>: a missing key counts 0, a value that is not a
  string raises \<open>TypeError\<close> (\<open>None\<close> here).\<close>

fun content_len :: "payload \<Rightarrow> nat option" where
  "content_len p =
     (case p ''content'' of None \<Rightarrow> Some 0 | Some (JStr s) \<Rightarrow> Some (length s) | Some _ \<Rightarrow> None)"

fun sum_content_len :: "ScoredPoint list \<Rightarrow> nat option" where
  "sum_content_len [] = Some 0"
| "sum_content_len (c # cs) =
     (case content_len (sp_payload c) of
        None \<Rightarrow> None
      | Some n \<Rightarrow> (case sum_content_len cs of None \<Rightarrow> None | Some m \<Rightarrow> Some (n + m)))"

text \<open>\<open>get_document_stats\<close> never raises: every exception becomes a count of 0. The average
  chunk size, a float that is only logged, is left out.\<close>

definition get_document_stats :: "env \<Rightarrow> string \<Rightarrow> doc_stats \<times> call list" where
  "get_document_stats e document_id =
     (let flt = Filter [FieldCondition ''document_id'' document_id] in
      (case client_scroll e flt 10000 of
         Inl x \<Rightarrow> \<lparr>chunk_count = 0, total_content_length = 0\<rparr>
       | Inr chunks \<Rightarrow>
           (if chunks = [] then \<lparr>chunk_count = 0, total_content_length = 0\<rparr>
            else (case sum_content_len chunks of
                    None \<Rightarrow> \<lparr>chunk_count = 0, total_content_length = 0\<rparr>
                  | Some n \<Rightarrow> \<lparr>chunk_count = length chunks, total_content_length = n\<rparr>)),
       [QdrantScroll flt 10000]))"

section \<open>Generation gateway (app/services/llm.py)\<close>

record SourceDocument =
  content :: string
  page_number :: "int option"
  confidence_score :: real

text \<open>One excerpt of the context; \<open>i\<close> counts from 1. A page number that is \<open>None\<close> or 0 prints
  nothing.\<close>

definition excerpt :: "env \<Rightarrow> nat \<Rightarrow> SourceDocument \<Rightarrow> string" where
  "excerpt e i doc =
     (let page_info = (case page_number doc of
                         None \<Rightarrow> []
                       | Some p \<Rightarrow> if p = 0 then [] else '' (Page '' @ str_int p @ '')'');
          confidence_info = '' [Relevance: '' @ format_score e (confidence_score doc) @ '']''
      in nl @ ''--- Excerpt '' @ str_nat i @ page_info @ confidence_info @ '' ---'' @ nl
         @ content doc @ nl)"

definition no_context :: string where
  "no_context = ''No relevant context found in the document.''"

definition build_context :: "env \<Rightarrow> SourceDocument list \<Rightarrow> string option \<Rightarrow> string" where
  "build_context e context_documents document_filename =
     (if context_documents = [] then no_context
      else concat
        ((case document_filename of
            None \<Rightarrow> []
          | Some f \<Rightarrow> if f = [] then [] else [''Document: '' @ f @ nl])
         @ [''Relevant excerpts from the document:'' @ nl]
         @ map (\<lambda>(i, doc). excerpt e i doc) (enumerate 1 context_documents)))"

definition system_prompt :: string where
  "system_prompt =
     ''You are DOCUMIND, an intelligent document analysis assistant. Your role is to help users understand and extract information from their documents through natural conversation.'' @ nl
     @ nl
     @ ''Guidelines:'' @ nl
     @ ''1. Answer questions based ONLY on the provided document context'' @ nl
     @ ''2. If information isn'' @ [CHR 0x27] @ ''t in the context, clearly state that you cannot find it in the document'' @ nl
     @ ''3. Provide specific references to page numbers when available'' @ nl
     @ ''4. Be concise but comprehensive in your responses'' @ nl
     @ ''5. Maintain a helpful and professional tone'' @ nl
     @ ''6. If asked about topics not covered in the document, politely redirect to document-related questions'' @ nl
     @ nl
     @ ''Always base your responses on the document content provided in the context.''"

definition user_message :: "string \<Rightarrow> string \<Rightarrow> string" where
  "user_message query context =
     ''Context from document:'' @ nl @ context @ nl @ nl
     @ ''User question: '' @ query @ nl @ nl
     @ ''Please answer the question based on the provided context.''"

text \<open>The history keeps its last 10 messages (\<open>conversation_history[-10:]\<close>).\<close>

definition build_messages :: "string \<Rightarrow> string \<Rightarrow> message list option \<Rightarrow> message list" where
  "build_messages query context conversation_history =
     [(''system'', system_prompt)]
     @ (case conversation_history of
          None \<Rightarrow> []
        | Some h \<Rightarrow> drop (length h - 10) h)
     @ [(''user'', user_message query context)]"

text \<open>\<open>generate_response\<close>; of the dictionary it returns, the model keeps the response text.\<close>

definition generate_response ::
  "env \<Rightarrow> string \<Rightarrow> SourceDocument list \<Rightarrow> message list option \<Rightarrow> string option
     \<Rightarrow> (exn + string) \<times> call list" where
  "generate_response e query context_documents conversation_history document_filename =
     (let context = build_context e context_documents document_filename;
          messages = build_messages query context conversation_history
      in (case completions_create e messages of
            Inl x \<Rightarrow> Inl x
          | Inr choices \<Rightarrow>
              (case choices of
                 [] \<Rightarrow> Inl (ValueError ''No response generated from LLM'')
               | c # _ \<Rightarrow> Inr c),
          [ChatCompletion messages]))"

section \<open>The document registry and the endpoints (app/main.py)\<close>

record doc_info =
  di_id :: string
  di_filename :: string
  di_size :: nat
  di_uploaded_at :: nat
  di_status :: ProcessingStatus
  di_file_path :: string
  di_task_id :: "string option"
  di_pages :: "nat option"
  di_error :: "string option"

text \<open>\<open>documents_db\<close> is a Python dictionary: insertion-ordered, a stored key keeps its place.\<close>

type_synonym documents_db = "(string \<times> doc_info) list"

record DocumentResponse =
  dr_id :: string
  dr_filename :: string
  dr_size :: nat
  dr_uploaded_at :: nat
  dr_status :: ProcessingStatus
  dr_pages :: "nat option"
  dr_error :: "string option"

datatype http_error = HTTPException nat string

record ChatRequest =
  cr_message :: string
  cr_document_id :: string
  cr_conversation_history :: "message list option"

record ChatResponse =
  response :: string
  sources :: "SourceDocument list"
  resp_document_id :: string

text \<open>The \<open>SourceDocument\<close> of a hit. Pydantic validates the fields: the content must be a
  string, the page number an integer or absent. (A page number stored as a string is refused
  here; no payload the ingestion writes has one.)\<close>

definition source_document :: "hit \<Rightarrow> exn + SourceDocument" where
  "source_document result =
     (case hit_content result of
        JStr c \<Rightarrow>
          (case hit_metadata result ''page_number'' of
             None \<Rightarrow> Inr \<lparr>content = c, page_number = None, confidence_score = hit_score result\<rparr>
           | Some JNull \<Rightarrow> Inr \<lparr>content = c, page_number = None, confidence_score = hit_score result\<rparr>
           | Some (JInt n) \<Rightarrow> Inr \<lparr>content = c, page_number = Some n, confidence_score = hit_score result\<rparr>
           | Some (JStr s) \<Rightarrow> Inl (ValidationError ''page_number''))
      | _ \<Rightarrow> Inl (ValidationError ''content''))"

fun source_documents :: "hit list \<Rightarrow> exn + SourceDocument list" where
  "source_documents [] = Inr []"
| "source_documents (r # rs) =
     (case source_document r of
        Inl x \<Rightarrow> Inl x
      | Inr d \<Rightarrow> (case source_documents rs of Inl x \<Rightarrow> Inl x | Inr ds \<Rightarrow> Inr (d # ds)))"

text \<open>\<open>chat_with_document\<close>. The two \<open>HTTPException\<close>s of the checks pass through; every other
  exception becomes the 500 of the last handler. The wall-clock \<open>processing_time\<close> is left
  out of the response.\<close>

definition chat_with_document ::
  "env \<Rightarrow> documents_db \<Rightarrow> ChatRequest \<Rightarrow> (http_error + ChatResponse) \<times> call list" where
  "chat_with_document e db request =
     (case map_of db (cr_document_id request) of
        None \<Rightarrow> (Inl (HTTPException 404 ''Document not found''), [])
      | Some info \<Rightarrow>
          if di_status info \<noteq> COMPLETED
          then (Inl (HTTPException 400
                  (''Document is not ready for chat. Status: '' @ format_status e (di_status info))), [])
          else
            (case get_document_stats e (cr_document_id request) of (stats, cs0) \<Rightarrow>
            (case search_similar e (cr_message request) (Some (cr_document_id request)) 5 (1/2) of
               (Inl x, cs1) \<Rightarrow> (Inl (HTTPException 500 ''Failed to process chat request''), cs0 @ cs1)
             | (Inr search_results, cs1) \<Rightarrow>
                 (case source_documents search_results of
                    Inl x \<Rightarrow> (Inl (HTTPException 500 ''Failed to process chat request''), cs0 @ cs1)
                  | Inr source_docs \<Rightarrow>
                      (case generate_response e (cr_message request) source_docs
                              (cr_conversation_history request) (Some (di_filename info)) of
                         (Inl x, cs2) \<Rightarrow>
                           (Inl (HTTPException 500 ''Failed to process chat request''), cs0 @ cs1 @ cs2)
                       | (Inr answer, cs2) \<Rightarrow>
                           (Inr \<lparr>response = answer, sources = source_docs,
                                 resp_document_id = cr_document_id request\<rparr>,
                            cs0 @ cs1 @ cs2))))))"

definition document_response :: "doc_info \<Rightarrow> DocumentResponse" where
  "document_response info =
     \<lparr>dr_id = di_id info, dr_filename = di_filename info, dr_size = di_size info,
      dr_uploaded_at = di_uploaded_at info, dr_status = di_status info,
      dr_pages = di_pages info, dr_error = di_error info\<rparr>"

text \<open>\<open>upload_document\<close>. \<open>file_read\<close> is what \<open>file.read()\<close> gives, \<open>saved\<close> what
  \<open>save_uploaded_file\<close> gives (the new id and the path), \<open>delayed\<close> what
  \<open>process_document.delay\<close> gives (the task id), \<open>now\<close> and \<open>now'\<close> the two readings of the
  clock. Any exception becomes a 400 with \<open>str(e)\<close>; what was written to \<open>documents_db\<close>
  before it stays written. There is no \<open>await\<close> between the two writes, so no other handler
  runs between them.\<close>

definition upload_document ::
  "documents_db \<Rightarrow> string \<Rightarrow> exn + string \<Rightarrow> exn + string \<times> string \<Rightarrow> exn + string
     \<Rightarrow> nat \<Rightarrow> nat \<Rightarrow> (http_error + DocumentResponse) \<times> documents_db" where
  "upload_document db filename file_read saved delayed now now' =
     (case file_read of
        Inl x \<Rightarrow> (Inl (HTTPException 400 (str_exn x)), db)
      | Inr file_content \<Rightarrow>
          (case saved of
             Inl x \<Rightarrow> (Inl (HTTPException 400 (str_exn x)), db)
           | Inr (document_id, path) \<Rightarrow>
               (let info = \<lparr>di_id = document_id, di_filename = filename,
                            di_size = length file_content, di_uploaded_at = now,
                            di_status = UPLOADING, di_file_path = path, di_task_id = None,
                            di_pages = None, di_error = None\<rparr>;
                    db1 = AList.update document_id info db
                in case delayed of
                     Inl x \<Rightarrow> (Inl (HTTPException 400 (str_exn x)), db1)
                   | Inr task_id \<Rightarrow>
                       (Inr \<lparr>dr_id = document_id, dr_filename = filename,
                             dr_size = length file_content, dr_uploaded_at = now',
                             dr_status = PROCESSING, dr_pages = None, dr_error = None\<rparr>,
                        AList.update document_id
                          (info\<lparr>di_task_id := Some task_id, di_status := PROCESSING\<rparr>) db1))))"

section \<open>The ingestion task (workers/document_tasks.py)\<close>

record progress_meta =
  pm_status :: ProcessingStatus
  pm_progress :: nat
  pm_message :: string
  pm_document_id :: string
  pm_pages :: "nat option"
  pm_chunks :: "nat option"

record task_result =
  tr_status :: ProcessingStatus
  tr_progress :: nat
  tr_message :: string
  tr_document_id :: string
  tr_chunks :: "nat option"
  tr_pages :: "nat option"
  tr_text_length :: "nat option"
  tr_metadata :: "payload option"
  tr_error :: "string option"

definition max_retries :: nat where
  "max_retries = 3"

definition pdf_metadata_dict :: "pdf_metadata \<Rightarrow> payload" where
  "pdf_metadata_dict m =
     [''page_count'' \<mapsto> JInt (int (md_page_count m)),
      ''text_length'' \<mapsto> JInt (int (md_text_length m)),
      ''file_size'' \<mapsto> JInt (int (md_file_size m)),
      ''file_path'' \<mapsto> JStr (md_file_path m)]
     ++ (case md_info m of
           None \<Rightarrow> Map.empty
         | Some (t, a, s, c) \<Rightarrow>
             [''title'' \<mapsto> JStr t, ''author'' \<mapsto> JStr a, ''subject'' \<mapsto> JStr s,
              ''creator'' \<mapsto> JStr c])"

definition combined_metadata :: "payload option \<Rightarrow> pdf_metadata \<Rightarrow> string \<Rightarrow> payload" where
  "combined_metadata metadata m task_id =
     ((case metadata of None \<Rightarrow> Map.empty | Some d \<Rightarrow> d) ++ pdf_metadata_dict m)
       (''processing_timestamp'' \<mapsto> JStr task_id)"

definition progress_update ::
  "nat \<Rightarrow> string \<Rightarrow> string \<Rightarrow> nat option \<Rightarrow> nat option \<Rightarrow> progress_meta" where
  "progress_update p msg document_id pages chunks =
     \<lparr>pm_status = PROCESSING, pm_progress = p, pm_message = msg, pm_document_id = document_id,
      pm_pages = pages, pm_chunks = chunks\<rparr>"

text \<open>The \<open>try\<close> block of \<open>_process_document\<close>: the states it passes to \<open>update_state\<close>, in
  order, then the result it returns or the exception that ends it, and the calls it made.
  Storing a state is taken to succeed.\<close>

definition run_pipeline ::
  "env \<Rightarrow> string \<Rightarrow> string \<Rightarrow> string \<Rightarrow> string \<Rightarrow> payload option
     \<Rightarrow> progress_meta list \<times> (exn + task_result) \<times> call list" where
  "run_pipeline e task_id document_id path filename metadata =
     (case doc_processor_initialize e of
        Some x \<Rightarrow> ([], Inl x, [])
      | None \<Rightarrow>
     (case vector_store_initialize e of
        Some x \<Rightarrow> ([], Inl x, [])
      | None \<Rightarrow>
     (let u10 = progress_update 10 ''Extracting text from PDF...'' document_id None None in
      case extract_text_from_pdf e path of
        Inl x \<Rightarrow> ([u10], Inl x, [])
      | Inr (extracted_text, m) \<Rightarrow>
     (let pages = Some (md_page_count m);
          u30 = progress_update 30 ''Text extracted successfully. Generating embeddings...''
                  document_id pages None;
          combined = combined_metadata metadata m task_id;
          u50 = progress_update 50 ''Storing document chunks in vector database...''
                  document_id pages None
      in case process_document e document_id extracted_text filename (Some combined) of
           (Inl x, cs) \<Rightarrow> ([u10, u30, u50], Inl x, cs)
         | (Inr chunks_count, cs) \<Rightarrow>
             ([u10, u30, u50,
               progress_update 90 ''Finalizing document processing...'' document_id pages
                 (Some chunks_count)],
              Inr \<lparr>tr_status = COMPLETED, tr_progress = 100,
                   tr_message = ''Document processed successfully'',
                   tr_document_id = document_id, tr_chunks = Some chunks_count,
                   tr_pages = pages, tr_text_length = Some (md_text_length m),
                   tr_metadata = Some combined, tr_error = None\<rparr>,
              cs)))))"

definition error_result :: "string \<Rightarrow> exn \<Rightarrow> task_result" where
  "error_result document_id x =
     \<lparr>tr_status = FAILED, tr_progress = 0, tr_message = ''Processing failed: '' @ str_exn x,
      tr_document_id = document_id, tr_chunks = None, tr_pages = None, tr_text_length = None,
      tr_metadata = None, tr_error = Some (str_exn x)\<rparr>"

text \<open>One execution of the task ends by returning a result or by raising \<open>Retry\<close> with a
  countdown.\<close>

datatype attempt_outcome = Returned task_result | RaisedRetry nat

text \<open>\<open>process_document\<close> of the worker, run with \<open>self.request.retries = retries\<close>. The
  handler deletes the uploaded file (an exception of the deletion is logged and dropped), then
  retries while \<open>retries < max_retries\<close>, and otherwise returns the error result.\<close>

definition process_document_task ::
  "env \<Rightarrow> nat \<Rightarrow> string \<Rightarrow> string \<Rightarrow> string \<Rightarrow> string \<Rightarrow> payload option
     \<Rightarrow> progress_meta list \<times> attempt_outcome \<times> call list" where
  "process_document_task e retries task_id document_id path filename metadata =
     (case run_pipeline e task_id document_id path filename metadata of
        (us, Inr result, cs) \<Rightarrow> (us, Returned result, cs)
      | (us, Inl x, cs) \<Rightarrow>
          (us,
           if retries < max_retries then RaisedRetry (60 * (retries + 1))
           else Returned (error_result document_id x),
           cs @ [DeleteFile path]))"

text \<open>What a client that polls the task reads of one execution: the progress of every state
  update, then the progress of the returned result, if one is returned.\<close>

definition reported_progress :: "progress_meta list \<times> attempt_outcome \<times> call list \<Rightarrow> nat list" where
  "reported_progress a =
     (case a of
        (us, Returned r, cs) \<Rightarrow> map pm_progress us @ [tr_progress r]
      | (us, RaisedRetry c, cs) \<Rightarrow> map pm_progress us)"

text \<open>The state Celery keeps for a task id, as \<open>AsyncResult\<close> shows it.\<close>

datatype async_state =
    PENDING
  | PROGRESS progress_meta
  | RETRY
  | SUCCESS task_result
  | FAILURE string

text \<open>Celery runs the task again after each \<open>Retry\<close>, with the retry counter one higher;
  \<open>envs r\<close> is the world the execution with counter \<open>r\<close> finds. The value is the list of
  executions, each with its counter, and the final state of the task: a returned result is
  stored as \<open>SUCCESS\<close>, whatever its \<open>status\<close> field says.\<close>

function run_process_document ::
  "(nat \<Rightarrow> env) \<Rightarrow> nat \<Rightarrow> string \<Rightarrow> string \<Rightarrow> string \<Rightarrow> string \<Rightarrow> payload option
     \<Rightarrow> (nat \<times> progress_meta list \<times> attempt_outcome \<times> call list) list \<times> async_state" where
  "run_process_document envs retries task_id document_id path filename metadata =
     (case process_document_task (envs retries) retries task_id document_id path filename metadata of
        (us, Returned r, cs) \<Rightarrow> ([(retries, us, Returned r, cs)], SUCCESS r)
      | (us, RaisedRetry c, cs) \<Rightarrow>
          (case run_process_document envs (Suc retries) task_id document_id path filename metadata of
             (as, st) \<Rightarrow> ((retries, us, RaisedRetry c, cs) # as, st)))"
  by pat_completeness auto
termination
  by (relation "measure (\<lambda>(envs, retries, rest). Suc max_retries - retries)")
     (auto simp: process_document_task_def split: prod.splits sum.splits if_splits)

declare run_process_document.simps [simp del]

section \<open>Status and list (app/main.py)\<close>

text \<open>\<open>get_document_status\<close>; \<open>async_result\<close> is the lookup of the state of a task id in
  Celery, which raises when the result backend cannot be reached. The handler writes what it
  learns into the stored record. On \<open>SUCCESS\<close> it copies the status and the pages of the
  result; only on \<open>FAILURE\<close> does it store an error.\<close>

definition get_document_status ::
  "(string \<Rightarrow> exn + async_state) \<Rightarrow> documents_db \<Rightarrow> string
     \<Rightarrow> (http_error + DocumentResponse) \<times> documents_db" where
  "get_document_status async_result db document_id =
     (case map_of db document_id of
        None \<Rightarrow> (Inl (HTTPException 404 ''Document not found''), db)
      | Some info \<Rightarrow>
          (case (if di_status info = PROCESSING
                 then (case di_task_id info of
                         None \<Rightarrow> Inr info
                       | Some t \<Rightarrow>
                           if t = [] then Inr info
                           else (case async_result t of
                                   Inl x \<Rightarrow> Inl x
                                 | Inr (SUCCESS task_result) \<Rightarrow>
                                     Inr (info\<lparr>di_status := tr_status task_result,
                                               di_pages := tr_pages task_result\<rparr>)
                                 | Inr (FAILURE i) \<Rightarrow>
                                     Inr (info\<lparr>di_status := FAILED, di_error := Some i\<rparr>)
                                 | Inr _ \<Rightarrow> Inr info))
                 else Inr info) of
             Inl x \<Rightarrow> (Inl (HTTPException 500 ''Failed to get document status''), db)
           | Inr info' \<Rightarrow> (Inr (document_response info'), AList.update document_id info' db)))"

text \<open>\<open>list_documents\<close>: every stored record, newest first; records of the same time keep
  their order, as Python's stable sort with \<open>reverse=True\<close> does.\<close>

definition list_documents :: "documents_db \<Rightarrow> DocumentResponse list \<times> nat" where
  "list_documents db =
     (let documents = rev (sort_key dr_uploaded_at (rev (map (\<lambda>(k, info). document_response info) db)))
      in (documents, length documents))"

section \<open>A reference index\<close>

text \<open>
  The vector index is an external service. Where a theorem needs it to keep its contract, the
  contract is a hypothesis; \<open>index_search\<close> is a small index that keeps it (filter on the
  payload, threshold, descending score, limit), used as the concrete collaborator.
\<close>

definition matches :: "Filter \<Rightarrow> payload \<Rightarrow> bool" where
  "matches f p = list_all (\<lambda>c. p (key c) = Some (JStr (match_value c))) (must f)"

definition honours_filter :: "env \<Rightarrow> bool" where
  "honours_filter e =
     (\<forall>v f l t rs. client_search e v (Some f) l t = Inr rs
        \<longrightarrow> (\<forall>r \<in> set rs. matches f (sp_payload r)))"

definition index_search ::
  "(real list \<Rightarrow> real list \<Rightarrow> real) \<Rightarrow> PointStruct list
     \<Rightarrow> real list \<Rightarrow> Filter option \<Rightarrow> int \<Rightarrow> real \<Rightarrow> exn + ScoredPoint list" where
  "index_search similarity points v flt limit threshold =
     Inr (take (nat limit)
           (sort_key (\<lambda>r. - sp_score r)
             (filter (\<lambda>r. threshold \<le> sp_score r)
               (map (\<lambda>pt. \<lparr>sp_payload = point_payload pt,
                            sp_score = similarity v (point_vector pt)\<rparr>)
                 (filter (\<lambda>pt. case flt of None \<Rightarrow> True | Some f \<Rightarrow> matches f (point_payload pt))
                    points)))))"

section \<open>A concrete world\<close>

text \<open>The values of the enumeration \<open>ProcessingStatus\<close> (app/models.py).\<close>

fun status_value :: "ProcessingStatus \<Rightarrow> string" where
  "status_value UPLOADING = ''uploading''"
| "status_value PROCESSING = ''processing''"
| "status_value COMPLETED = ''completed''"
| "status_value FAILED = ''failed''"

text \<open>The metadata the upload endpoint passes to the task.\<close>

definition upload_metadata :: payload where
  "upload_metadata = [''uploaded_by'' \<mapsto> JStr ''user'']"

text \<open>Collaborators that all answer: a provider that gives every text a vector of the
  configured dimension, an index that holds one chunk of each of two documents, as the
  ingestion writes them, a splitter that keeps a text whole.\<close>

definition sample_pdf :: pdf_metadata where
  "sample_pdf = \<lparr>md_page_count = 1, md_text_length = 5, md_file_size = 100,
                  md_file_path = ''uploads/a.pdf'', md_info = None\<rparr>"

definition sample_points :: "PointStruct list" where
  "sample_points =
     [\<lparr>point_id = ''id'', point_vector = replicate 768 0,
       point_payload = point_metadata ''doc-a'' ''a.pdf'' 0 ''alpha''
                         (Some (combined_metadata (Some upload_metadata) sample_pdf ''task-1''))\<rparr>,
      \<lparr>point_id = ''id'', point_vector = replicate 768 0,
       point_payload = point_metadata ''doc-b'' ''b.pdf'' 0 ''beta''
                         (Some (combined_metadata (Some upload_metadata) sample_pdf ''task-2''))\<rparr>]"

definition sample_env :: env where
  "sample_env =
     \<lparr>embed_text = (\<lambda>texts task. NomicEmbeddings (map (\<lambda>t. replicate 768 0) texts)),
      client_search = index_search (\<lambda>q v. 3/4) sample_points,
      client_scroll = (\<lambda>f n. Inr []),
      client_upsert = (\<lambda>ps. None),
      completions_create = (\<lambda>ms. Inr [''answer'']),
      split_text = (\<lambda>t. if t = [] then [] else [t]),
      uuid4 = (\<lambda>i. ''id''),
      format_status = status_value,
      format_score = (\<lambda>s. ''0.75''),
      doc_processor_initialize = None,
      vector_store_initialize = None,
      extract_text_from_pdf = (\<lambda>p. Inr (''alpha'', sample_pdf))\<rparr>"

text \<open>The same world with a file that cannot be read: the extraction raises.\<close>

definition failing_env :: env where
  "failing_env =
     sample_env\<lparr>extract_text_from_pdf := (\<lambda>p. Inl (Exception ''PDF processing error: EOF''))\<rparr>"

definition sample_doc :: "ProcessingStatus \<Rightarrow> doc_info" where
  "sample_doc s =
     \<lparr>di_id = ''doc-a'', di_filename = ''a.pdf'', di_size = 100, di_uploaded_at = 1,
      di_status = s, di_file_path = ''uploads/a.pdf'', di_task_id = Some ''task-1'',
      di_pages = None, di_error = None\<rparr>"

definition sample_request :: ChatRequest where
  "sample_request =
     \<lparr>cr_message = ''what is alpha?'', cr_document_id = ''doc-a'',
      cr_conversation_history = Some []\<rparr>"

text \<open>A provider that answers the second text with a vector of two numbers.\<close>

definition mismatch_env :: env where
  "mismatch_env =
     sample_env\<lparr>embed_text := (\<lambda>texts task. NomicEmbeddings [replicate 768 0, [1, 2]])\<rparr>"

text \<open>A provider that answers every batch with a single vector of the configured dimension,
  and a splitter that cuts every text into two chunks.\<close>

definition short_answer_env :: env where
  "short_answer_env =
     sample_env\<lparr>embed_text := (\<lambda>texts task. NomicEmbeddings [replicate 768 0]),
                split_text := (\<lambda>t. [''a'', ''b''])\<rparr>"

text \<open>The same index scoring every chunk below the threshold of the chat endpoint.\<close>

definition low_score_env :: env where
  "low_score_env = sample_env\<lparr>client_search := index_search (\<lambda>q v. 1/4) sample_points\<rparr>"

section \<open>Properties of the embedding gateway\<close>

lemma validate_dimensions_None:
  "validate_dimensions i es = None \<Longrightarrow> \<forall>v \<in> set es. length v = dimension"
  by (induction es arbitrary: i) (auto split: if_splits)

lemma validate_dimensions_Some:
  "\<exists>v \<in> set es. length v \<noteq> dimension \<Longrightarrow>
   \<exists>j < length es. length (es ! j) \<noteq> dimension \<and>
     validate_dimensions i es = Some (ValueError (dimension_message (i + j) (length (es ! j))))"
proof (induction es arbitrary: i)
  case Nil
  then show ?case by simp
next
  case (Cons a es)
  show ?case
  proof (cases "length a = dimension")
    case True
    with Cons.prems have "\<exists>v \<in> set es. length v \<noteq> dimension" by auto
    from Cons.IH[OF this, of "Suc i"] obtain j where
      j: "j < length es" "length (es ! j) \<noteq> dimension"
      "validate_dimensions (Suc i) es
         = Some (ValueError (dimension_message (Suc i + j) (length (es ! j))))" by blast
    show ?thesis
      by (rule exI[of _ "Suc j"]) (use j True in simp)
  next
    case False
    show ?thesis
      by (rule exI[of _ 0]) (use False in simp)
  qed
qed

lemma get_embeddings_Inr_dimension:
  "get_embeddings e texts = (Inr vs, cs) \<Longrightarrow> v \<in> set vs \<Longrightarrow> length v = dimension"
  by (cases "texts = []")
     (auto simp: get_embeddings_def generate_embeddings_sync_def
           split: nomic_result.splits option.splits dest: validate_dimensions_None)

text \<open>
  Claim C6. Every vector the embedding gateway returns for a batch has exactly the configured
  dimension, 768: a batch passes only when every vector of the provider's answer has that
  length. When some vector of the answer has another length, the whole batch fails with the
  exception that names the text and the two lengths; no vector is returned, none is cut.
\<close>

theorem get_embeddings_validates_dimension:
  "dimension = 768 \<and>
   (get_embeddings e texts = (Inr vs, cs) \<longrightarrow> (\<forall>v \<in> set vs. length v = dimension)) \<and>
   (texts \<noteq> [] \<and> embed_text e texts search_document = NomicEmbeddings es
      \<and> (\<exists>v \<in> set es. length v \<noteq> dimension)
    \<longrightarrow> (\<exists>j < length es. length (es ! j) \<noteq> dimension \<and>
          fst (get_embeddings e texts) =
            Inl (Exception (''Nomic embedding generation failed: ''
                   @ dimension_message j (length (es ! j))))))"
proof (intro conjI impI)
  show "dimension = 768" by (simp add: dimension_def)
next
  assume a: "get_embeddings e texts = (Inr vs, cs)"
  show "\<forall>v \<in> set vs. length v = dimension"
  proof (cases "texts = []")
    case True
    with a show ?thesis by (simp add: get_embeddings_def)
  next
    case False
    with a show ?thesis
      by (auto simp: get_embeddings_def generate_embeddings_sync_def
               split: nomic_result.splits option.splits dest: validate_dimensions_None)
  qed
next
  assume a: "texts \<noteq> [] \<and> embed_text e texts search_document = NomicEmbeddings es
      \<and> (\<exists>v \<in> set es. length v \<noteq> dimension)"
  then have "\<exists>v \<in> set es. length v \<noteq> dimension" by blast
  from validate_dimensions_Some[OF this, of 0] obtain j where
    j: "j < length es" "length (es ! j) \<noteq> dimension"
     "validate_dimensions 0 es = Some (ValueError (dimension_message (0 + j) (length (es ! j))))"
    by blast
  show "\<exists>j < length es. length (es ! j) \<noteq> dimension \<and>
          fst (get_embeddings e texts) =
            Inl (Exception (''Nomic embedding generation failed: ''
                   @ dimension_message j (length (es ! j))))"
    by (rule exI[of _ j]) (use a j in \<open>simp add: get_embeddings_def generate_embeddings_sync_def\<close>)
qed

theorem get_embeddings_validates_dimension_witness:
  "get_embeddings sample_env [''a''] = (Inr [replicate 768 0], [EmbedText [''a''] search_document])
   \<and> length (replicate 768 (0::real)) = dimension
   \<and> [''a'', ''b''] \<noteq> []
   \<and> embed_text mismatch_env [''a'', ''b''] search_document = NomicEmbeddings [replicate 768 0, [1, 2]]
   \<and> (\<exists>v \<in> set [replicate 768 (0::real), [1, 2]]. length v \<noteq> dimension)
   \<and> (\<exists>j. fst (get_embeddings mismatch_env [''a'', ''b'']) =
            Inl (Exception (''Nomic embedding generation failed: ''
                   @ dimension_message j (length ([replicate 768 (0::real), [1, 2]] ! j)))))"
proof -
  have g: "get_embeddings sample_env [''a''] = (Inr [replicate 768 0], [EmbedText [''a''] search_document])"
    by (simp add: get_embeddings_def generate_embeddings_sync_def sample_env_def dimension_def)
  have h: "[''a'', ''b''] \<noteq> []
     \<and> embed_text mismatch_env [''a'', ''b''] search_document = NomicEmbeddings [replicate 768 0, [1, 2]]
     \<and> (\<exists>v \<in> set [replicate 768 (0::real), [1, 2]]. length v \<noteq> dimension)"
    by (simp add: mismatch_env_def sample_env_def dimension_def)
  from get_embeddings_validates_dimension[of sample_env "[''a'']" "[replicate 768 0]" "[EmbedText [''a''] search_document]"] g
  have a: "length (replicate 768 (0::real)) = dimension" by simp
  from get_embeddings_validates_dimension[of mismatch_env "[''a'', ''b'']" _ _ "[replicate 768 0, [1, 2]]"] h
  have c: "\<exists>j. fst (get_embeddings mismatch_env [''a'', ''b'']) =
            Inl (Exception (''Nomic embedding generation failed: ''
                   @ dimension_message j (length ([replicate 768 (0::real), [1, 2]] ! j))))"
    by blast
  from g a h c show ?thesis by blast
qed

text \<open>What the ingestion persists: every point of every batch sent to the index carries a
  vector of the configured dimension.\<close>

lemma concat_split_batches: "concat (split_batches xs) = xs"
proof (induction xs rule: split_batches.induct)
  case (1 points)
  show ?case
  proof (cases "points = []")
    case True
    then show ?thesis by (simp add: split_batches.simps)
  next
    case False
    with 1 show ?thesis by (subst split_batches.simps) simp
  qed
qed

lemma upsert_batches_calls:
  "upsert_batches e bs = (r, cs) \<Longrightarrow> c \<in> set cs \<Longrightarrow> \<exists>b \<in> set bs. c = QdrantUpsert b"
  by (induction bs arbitrary: r cs) (auto split: option.splits prod.splits)

lemma build_points_vector:
  assumes "p \<in> set (build_points e d f md chunks embeddings)"
  shows "point_vector p \<in> set embeddings"
proof -
  from assms obtain i c v where
    m: "(i, c, v) \<in> set (enumerate 0 (zip chunks embeddings))" and v: "point_vector p = v"
    by (auto simp: build_points_def)
  from m have "i < length (zip chunks embeddings)" "zip chunks embeddings ! i = (c, v)"
    by (simp_all add: in_set_enumerate_eq)
  then have "(c, v) \<in> set (zip chunks embeddings)"
    by (metis nth_mem)
  with v show ?thesis by (auto dest: set_zip_rightD)
qed

lemma get_embeddings_calls:
  "get_embeddings e texts = (r, cs) \<Longrightarrow> QdrantUpsert b \<notin> set cs"
  by (auto simp: get_embeddings_def generate_embeddings_sync_def split: if_splits)

lemma process_document_persists_validated_vectors:
  assumes "process_document e d text f md = (r, cs)"
    and "QdrantUpsert batch \<in> set cs" and "p \<in> set batch"
  shows "length (point_vector p) = dimension"
proof -
  obtain g cs0 where g: "get_embeddings e (split_text e text) = (g, cs0)"
    by (cases "get_embeddings e (split_text e text)") auto
  note n = get_embeddings_calls[OF g, of batch]
  show ?thesis
  proof (cases g)
    case (Inl x)
    with assms(1,2) g n show ?thesis
      by (auto simp: process_document_def Let_def split: if_splits)
  next
    case (Inr vs)
    obtain r' cs1 where
      u: "upsert_batches e (split_batches (build_points e d f md (split_text e text) vs)) = (r', cs1)"
      by (cases "upsert_batches e (split_batches (build_points e d f md (split_text e text) vs))") auto
    from assms(1,2) g Inr u n have "QdrantUpsert batch \<in> set cs1"
      by (auto simp: process_document_def Let_def split: if_splits option.splits)
    from upsert_batches_calls[OF u this]
    have "batch \<in> set (split_batches (build_points e d f md (split_text e text) vs))" by simp
    with assms(3) have "p \<in> set (concat (split_batches (build_points e d f md (split_text e text) vs)))"
      by auto
    then have "p \<in> set (build_points e d f md (split_text e text) vs)"
      by (simp only: concat_split_batches)
    from build_points_vector[OF this] get_embeddings_Inr_dimension[OF g[unfolded Inr]]
    show ?thesis by blast
  qed
qed

text \<open>What the gateway does with the texts and the answer: an empty input gives an empty
  output and no call to the provider; a non-empty input is sent in one call, in its order;
  and a list it returns is the list the provider answered, unchanged.\<close>

lemma get_embeddings_passes_answer_through:
  "get_embeddings e [] = (Inr [], []) \<and>
   (texts \<noteq> [] \<longrightarrow> snd (get_embeddings e texts) = [EmbedText texts search_document]) \<and>
   (texts \<noteq> [] \<and> get_embeddings e texts = (Inr vs, cs)
      \<longrightarrow> embed_text e texts search_document = NomicEmbeddings vs)"
  by (auto simp: get_embeddings_def generate_embeddings_sync_def
           split: nomic_result.splits option.splits)

text \<open>
  Claim C9 says the output of the gateway is in one-to-one correspondence with the input
  texts, for every call. The gateway checks the length of each vector and never how many
  vectors came back (the health check of the same service does compare the count with 1):
  when the provider answers two texts with one vector, the gateway returns that one vector
  as a success. The ingestion then pairs chunks and vectors with \<open>zip\<close>, stores a single point
  for the first chunk and reports two chunks.
\<close>

theorem get_embeddings_accepts_short_answer:
  "get_embeddings short_answer_env [''a'', ''b'']
     = (Inr [replicate 768 0], [EmbedText [''a'', ''b''] search_document])
   \<and> length [replicate 768 (0::real)] < length [''a'', ''b'']
   \<and> process_document short_answer_env ''doc-a'' ''ab'' ''a.pdf'' None
       = (Inr 2, [EmbedText [''a'', ''b''] search_document,
                  QdrantUpsert [\<lparr>point_id = ''id'', point_vector = replicate 768 0,
                                 point_payload = point_metadata ''doc-a'' ''a.pdf'' 0 ''a'' None\<rparr>]])"
proof -
  have g: "get_embeddings short_answer_env [''a'', ''b'']
     = (Inr [replicate 768 0], [EmbedText [''a'', ''b''] search_document])"
    by (simp add: get_embeddings_def generate_embeddings_sync_def short_answer_env_def
          sample_env_def dimension_def)
  have s: "split_text short_answer_env ''ab'' = [''a'', ''b'']"
    "client_upsert short_answer_env = (\<lambda>ps. None)" "uuid4 short_answer_env = (\<lambda>i. ''id'')"
    by (simp_all add: short_answer_env_def sample_env_def)
  have p: "process_document short_answer_env ''doc-a'' ''ab'' ''a.pdf'' None
       = (Inr 2, [EmbedText [''a'', ''b''] search_document,
                  QdrantUpsert [\<lparr>point_id = ''id'', point_vector = replicate 768 0,
                                 point_payload = point_metadata ''doc-a'' ''a.pdf'' 0 ''a'' None\<rparr>]])"
    by (simp add: process_document_def s g build_points_def split_batches.simps batch_size_def)
  from g p show ?thesis by simp
qed

section \<open>Properties of the search\<close>

text \<open>
  Claim C3 says the question is embedded in query mode. The search embeds it with
  \<open>get_embeddings\<close>, the operation the ingestion uses for chunks: the first call of every
  search sends the question to the provider with the task type \<open>search_document\<close>, and no call
  of the search uses \<open>search_query\<close>.
\<close>

theorem search_similar_embeds_query_as_document:
  "(\<exists>rest. snd (search_similar e query document_id limit score_threshold)
            = EmbedText [query] search_document # rest)
   \<and> EmbedText [query] search_query
       \<notin> set (snd (search_similar e query document_id limit score_threshold))"
  by (auto simp: search_similar_def get_embeddings_def generate_embeddings_sync_def Let_def
           split: prod.splits sum.splits list.splits nomic_result.splits option.splits)

text \<open>The payload the ingestion writes for a chunk of an uploaded document: the caller's
  metadata is \<open>upload_metadata\<close>, merged with the metadata of the PDF and the task id. None
  of these overwrites the four keys a hit reads, and none is \<open>page_number\<close>.\<close>

lemma ingested_payload_keys:
  "point_metadata d f i c (Some (combined_metadata (Some upload_metadata) m t)) ''document_id''
     = Some (JStr d)"
  "point_metadata d f i c (Some (combined_metadata (Some upload_metadata) m t)) ''filename''
     = Some (JStr f)"
  "point_metadata d f i c (Some (combined_metadata (Some upload_metadata) m t)) ''chunk_index''
     = Some (JInt (int i))"
  "point_metadata d f i c (Some (combined_metadata (Some upload_metadata) m t)) ''content''
     = Some (JStr c)"
  "point_metadata d f i c (Some (combined_metadata (Some upload_metadata) m t)) ''page_number''
     = None"
  by (simp_all add: point_metadata_def combined_metadata_def pdf_metadata_dict_def
        upload_metadata_def map_add_def split: option.splits)

lemma search_filter_of_set:
  "search_filter_of document_id \<noteq> None \<longleftrightarrow> (\<exists>d. document_id = Some d \<and> d \<noteq> [])"
  by (auto simp: search_filter_of_def split: option.splits)

lemma format_result_document_id:
  "format_result r = Inr h \<Longrightarrow> sp_payload r ''document_id'' = Some (hit_document_id h)"
  by (auto simp: format_result_def getitem_def split: option.splits)

lemma format_results_source:
  "format_results rs = Inr hs \<Longrightarrow> \<forall>h \<in> set hs. \<exists>r \<in> set rs. format_result r = Inr h"
  by (induction rs arbitrary: hs) (auto split: sum.splits)

lemma index_search_matches:
  "index_search similarity points v (Some f) l t = Inr rs \<Longrightarrow> r \<in> set rs \<Longrightarrow> matches f (sp_payload r)"
  by (auto simp: index_search_def dest!: in_set_takeD)

lemma sample_env_honours_filter: "honours_filter sample_env"
  unfolding honours_filter_def
  by (auto simp: sample_env_def dest: index_search_matches)

text \<open>
  Claim C1. When a search runs with the document filter set, every hit it returns has the
  document id of the filter. The filter is set when a document id is given and is not the
  empty string (\<open>if document_id:\<close>); the index is asked with a \<open>must\<close> condition on the
  payload key \<open>document_id\<close>, and each hit copies the \<open>document_id\<close> of its payload. The index
  is an external service: that it returns only points that satisfy the filter it was given
  is the hypothesis \<open>honours_filter\<close>.
\<close>

theorem search_similar_document_filter:
  assumes "honours_filter e"
    and "search_filter_of document_id = Some flt"
    and "search_similar e query document_id limit score_threshold = (Inr hits, cs)"
  shows "\<exists>d. document_id = Some d \<and> (\<forall>h \<in> set hits. hit_document_id h = JStr d)"
proof -
  from assms(2) obtain d where d: "document_id = Some d" "d \<noteq> []"
    "flt = Filter [FieldCondition ''document_id'' d]"
    by (auto simp: search_filter_of_def split: option.splits if_splits)
  from assms(3) d obtain v rs where
    rs: "client_search e v (Some flt) limit score_threshold = Inr rs" "format_results rs = Inr hits"
    by (auto simp: search_similar_def search_filter_of_def Let_def
             split: prod.splits sum.splits list.splits)
  have "hit_document_id h = JStr d" if "h \<in> set hits" for h
  proof -
    from format_results_source[OF rs(2)] that obtain r where
      r: "r \<in> set rs" "format_result r = Inr h" by blast
    from assms(1) rs(1) r(1) have "matches flt (sp_payload r)"
      unfolding honours_filter_def by blast
    with d(3) have "sp_payload r ''document_id'' = Some (JStr d)"
      by (simp add: matches_def)
    with format_result_document_id[OF r(2)] show ?thesis by simp
  qed
  with d(1) show ?thesis by blast
qed

theorem search_similar_document_filter_witness:
  "honours_filter sample_env
   \<and> search_filter_of (Some ''doc-a'') = Some (Filter [FieldCondition ''document_id'' ''doc-a''])
   \<and> (\<exists>h cs. search_similar sample_env ''alpha?'' (Some ''doc-a'') 5 (1/2) = (Inr [h], cs)
          \<and> hit_document_id h = JStr ''doc-a'' \<and> hit_content h = JStr ''alpha'')"
proof -
  have f: "search_filter_of (Some ''doc-a'') = Some (Filter [FieldCondition ''document_id'' ''doc-a''])"
    by (simp add: search_filter_of_def)
  have s: "\<exists>h cs. search_similar sample_env ''alpha?'' (Some ''doc-a'') 5 (1/2) = (Inr [h], cs)
             \<and> hit_content h = JStr ''alpha''"
    by (simp add: search_similar_def get_embeddings_def generate_embeddings_sync_def
          sample_env_def dimension_def search_filter_of_def index_search_def sample_points_def
          matches_def ingested_payload_keys format_result_def getitem_def)
  then obtain h cs where
    h: "search_similar sample_env ''alpha?'' (Some ''doc-a'') 5 (1/2) = (Inr [h], cs)"
       "hit_content h = JStr ''alpha''" by blast
  from search_similar_document_filter[OF sample_env_honours_filter f h(1)]
  have "hit_document_id h = JStr ''doc-a''" by simp
  with sample_env_honours_filter f h show ?thesis by blast
qed

text \<open>The chat endpoint embeds through the search alone, so no call of a chat request uses
  the task type \<open>search_query\<close>.\<close>

lemma chat_never_embeds_in_query_mode:
  "EmbedText ts search_query \<notin> set (snd (chat_with_document e db request))"
  by (auto simp: chat_with_document_def get_document_stats_def search_similar_def
        get_embeddings_def generate_embeddings_sync_def generate_response_def Let_def
        split: option.splits prod.splits sum.splits list.splits if_splits)

section \<open>Properties of the chat endpoint\<close>

text \<open>
  Claim C2. A chat request for a document that is stored but whose status is not
  \<open>COMPLETED\<close> fails with the 400 error whose detail carries the current status, and no
  collaborator has been called: neither the embedding provider nor the index is reached.
\<close>

theorem chat_rejects_document_not_completed:
  assumes "map_of db (cr_document_id request) = Some info"
    and "di_status info \<noteq> COMPLETED"
  shows "chat_with_document e db request =
           (Inl (HTTPException 400
              (''Document is not ready for chat. Status: '' @ format_status e (di_status info))), [])"
  using assms by (simp add: chat_with_document_def)

theorem chat_rejects_document_not_completed_witness:
  "map_of [(''doc-a'', sample_doc PROCESSING)] (cr_document_id sample_request) = Some (sample_doc PROCESSING)
   \<and> di_status (sample_doc PROCESSING) \<noteq> COMPLETED
   \<and> chat_with_document sample_env [(''doc-a'', sample_doc PROCESSING)] sample_request =
           (Inl (HTTPException 400 ''Document is not ready for chat. Status: processing''), [])"
proof -
  have a: "map_of [(''doc-a'', sample_doc PROCESSING)] (cr_document_id sample_request) = Some (sample_doc PROCESSING)"
    by (simp add: sample_request_def)
  have b: "di_status (sample_doc PROCESSING) \<noteq> COMPLETED"
    by (simp add: sample_doc_def)
  from chat_rejects_document_not_completed[OF a b, of sample_env] a b
  show ?thesis by (simp add: sample_env_def sample_doc_def)
qed

text \<open>
  Claim C7. When the search of a chat request on a completed document returns no hit, the
  generation is still called, once, after the search; the user message it is given holds the
  sentence \<open>No relevant context found in the document.\<close> as its context; and the request
  succeeds, with an empty list of sources, whenever the model returns a choice.
\<close>

theorem chat_without_hits_still_generates:
  assumes "map_of db (cr_document_id request) = Some info"
    and "di_status info = COMPLETED"
    and "search_similar e (cr_message request) (Some (cr_document_id request)) 5 (1/2) = (Inr [], cs1)"
  shows "\<exists>msgs pre post.
           msgs = build_messages (cr_message request) no_context (cr_conversation_history request)
         \<and> last msgs = (''user'', pre @ ''No relevant context found in the document.'' @ post)
         \<and> snd (chat_with_document e db request)
             = snd (get_document_stats e (cr_document_id request)) @ cs1 @ [ChatCompletion msgs]
         \<and> fst (chat_with_document e db request)
             = (case completions_create e msgs of
                  Inr (c # rest) \<Rightarrow> Inr \<lparr>response = c, sources = [],
                                         resp_document_id = cr_document_id request\<rparr>
                | _ \<Rightarrow> Inl (HTTPException 500 ''Failed to process chat request''))"
proof -
  let ?msgs = "build_messages (cr_message request) no_context (cr_conversation_history request)"
  have l: "last ?msgs = (''user'', (''Context from document:'' @ nl)
              @ ''No relevant context found in the document.''
              @ (nl @ nl @ ''User question: '' @ cr_message request @ nl @ nl
                 @ ''Please answer the question based on the provided context.''))"
    by (simp add: build_messages_def user_message_def no_context_def)
  have c: "snd (chat_with_document e db request)
             = snd (get_document_stats e (cr_document_id request)) @ cs1 @ [ChatCompletion ?msgs]"
    using assms
    by (simp add: chat_with_document_def generate_response_def build_context_def Let_def
             split: prod.splits sum.splits list.splits)
  have r: "fst (chat_with_document e db request)
             = (case completions_create e ?msgs of
                  Inr (c # rest) \<Rightarrow> Inr \<lparr>response = c, sources = [],
                                         resp_document_id = cr_document_id request\<rparr>
                | _ \<Rightarrow> Inl (HTTPException 500 ''Failed to process chat request''))"
    using assms
    by (simp add: chat_with_document_def generate_response_def build_context_def Let_def
             split: prod.splits sum.splits list.splits)
  from l c r show ?thesis by blast
qed

theorem chat_without_hits_still_generates_witness:
  "map_of [(''doc-a'', sample_doc COMPLETED)] (cr_document_id sample_request) = Some (sample_doc COMPLETED)
   \<and> di_status (sample_doc COMPLETED) = COMPLETED
   \<and> search_similar low_score_env (cr_message sample_request) (Some (cr_document_id sample_request)) 5 (1/2)
       = (Inr [], [EmbedText [''what is alpha?''] search_document,
                   QdrantSearch (replicate 768 0) (Some (Filter [FieldCondition ''document_id'' ''doc-a''])) 5 (1/2)])
   \<and> fst (chat_with_document low_score_env [(''doc-a'', sample_doc COMPLETED)] sample_request)
       = Inr \<lparr>response = ''answer'', sources = [], resp_document_id = ''doc-a''\<rparr>
   \<and> (\<exists>pre post. last (snd (chat_with_document low_score_env [(''doc-a'', sample_doc COMPLETED)] sample_request))
        = ChatCompletion [(''system'', system_prompt),
             (''user'', pre @ ''No relevant context found in the document.'' @ post)])"
proof -
  have a: "map_of [(''doc-a'', sample_doc COMPLETED)] (cr_document_id sample_request) = Some (sample_doc COMPLETED)"
    by (simp add: sample_request_def)
  have b: "di_status (sample_doc COMPLETED) = COMPLETED"
    by (simp add: sample_doc_def)
  have s: "search_similar low_score_env (cr_message sample_request) (Some (cr_document_id sample_request)) 5 (1/2)
       = (Inr [], [EmbedText [''what is alpha?''] search_document,
                   QdrantSearch (replicate 768 0) (Some (Filter [FieldCondition ''document_id'' ''doc-a''])) 5 (1/2)])"
    by (simp add: search_similar_def get_embeddings_def generate_embeddings_sync_def
          low_score_env_def sample_env_def dimension_def search_filter_of_def index_search_def
          sample_request_def)
  from chat_without_hits_still_generates[OF a b s] obtain msgs pre post where
    m: "msgs = build_messages (cr_message sample_request) no_context (cr_conversation_history sample_request)"
       "last msgs = (''user'', pre @ ''No relevant context found in the document.'' @ post)"
       "snd (chat_with_document low_score_env [(''doc-a'', sample_doc COMPLETED)] sample_request)
             = snd (get_document_stats low_score_env (cr_document_id sample_request)) @ 
               [EmbedText [''what is alpha?''] search_document,
                   QdrantSearch (replicate 768 0) (Some (Filter [FieldCondition ''document_id'' ''doc-a''])) 5 (1/2)]
               @ [ChatCompletion msgs]"
       "fst (chat_with_document low_score_env [(''doc-a'', sample_doc COMPLETED)] sample_request)
             = (case completions_create low_score_env msgs of
                  Inr (c # rest) \<Rightarrow> Inr \<lparr>response = c, sources = [],
                                         resp_document_id = cr_document_id sample_request\<rparr>
                | _ \<Rightarrow> Inl (HTTPException 500 ''Failed to process chat request''))"
    by blast
  have msgs: "msgs = [(''system'', system_prompt), last msgs]"
    unfolding m(1) by (simp add: build_messages_def sample_request_def)
  have f: "fst (chat_with_document low_score_env [(''doc-a'', sample_doc COMPLETED)] sample_request)
       = Inr \<lparr>response = ''answer'', sources = [], resp_document_id = ''doc-a''\<rparr>"
    unfolding m(4) by (simp add: low_score_env_def sample_env_def sample_request_def)
  have "last (snd (chat_with_document low_score_env [(''doc-a'', sample_doc COMPLETED)] sample_request))
        = ChatCompletion [(''system'', system_prompt),
             (''user'', pre @ ''No relevant context found in the document.'' @ post)]"
    unfolding m(3) using msgs m(2) by simp
  with a b s f show ?thesis by blast
qed

text \<open>The citations follow the hits one to one: each carries the content and the score of
  its hit, and as page number the integer stored under \<open>page_number\<close> in the metadata of the
  hit, or nothing when no such key is stored.\<close>

lemma source_documents_follow_hits:
  "source_documents hits = Inr ds \<Longrightarrow>
     length ds = length hits \<and>
     (\<forall>i < length hits.
        hit_content (hits ! i) = JStr (content (ds ! i)) \<and>
        confidence_score (ds ! i) = hit_score (hits ! i) \<and>
        page_number (ds ! i) =
          (case hit_metadata (hits ! i) ''page_number'' of Some (JInt n) \<Rightarrow> Some n | _ \<Rightarrow> None))"
proof (induction hits arbitrary: ds)
  case Nil
  then show ?case by simp
next
  case (Cons h hits)
  from Cons.prems obtain d ds' where
    d: "source_document h = Inr d" "source_documents hits = Inr ds'" "ds = d # ds'"
    by (auto split: sum.splits)
  have h: "hit_content h = JStr (content d) \<and> confidence_score d = hit_score h \<and>
        page_number d = (case hit_metadata h ''page_number'' of Some (JInt n) \<Rightarrow> Some n | _ \<Rightarrow> None)"
    using d(1) by (auto simp: source_document_def split: json.splits option.splits)
  from Cons.IH[OF d(2)] h d(3) show ?case
    by (auto simp: nth_Cons split: nat.splits)
qed

text \<open>
  Claim C5 says each citation carries the content, the page number and the score of its
  chunk. The content and the score are carried. The page number is read from the key
  \<open>page_number\<close> of the metadata of the hit, and the ingestion never writes that key: for
  every chunk of every uploaded document the citation built from its stored payload has no
  page number. The second part runs the chat endpoint on an index that holds a chunk as the
  ingestion wrote it.
\<close>

theorem ingested_chunk_citation_has_no_page_number:
  "(\<exists>h. format_result
           \<lparr>sp_payload = point_metadata document_id filename i chunk
                            (Some (combined_metadata (Some upload_metadata) m task_id)),
            sp_score = s\<rparr> = Inr h
        \<and> source_document h = Inr \<lparr>content = chunk, page_number = None, confidence_score = s\<rparr>)
   \<and> fst (chat_with_document sample_env [(''doc-a'', sample_doc COMPLETED)] sample_request)
       = Inr \<lparr>response = ''answer'',
              sources = [\<lparr>content = ''alpha'', page_number = None, confidence_score = 3/4\<rparr>],
              resp_document_id = ''doc-a''\<rparr>"
proof
  show "\<exists>h. format_result
           \<lparr>sp_payload = point_metadata document_id filename i chunk
                            (Some (combined_metadata (Some upload_metadata) m task_id)),
            sp_score = s\<rparr> = Inr h
        \<and> source_document h = Inr \<lparr>content = chunk, page_number = None, confidence_score = s\<rparr>"
    by (simp add: format_result_def getitem_def ingested_payload_keys source_document_def
          restrict_map_def)
next
  have s: "\<exists>h. fst (search_similar sample_env ''what is alpha?'' (Some ''doc-a'') 5 (1/2)) = Inr [h]
             \<and> source_document h = Inr \<lparr>content = ''alpha'', page_number = None, confidence_score = 3/4\<rparr>"
    by (simp add: search_similar_def get_embeddings_def generate_embeddings_sync_def
          sample_env_def dimension_def search_filter_of_def index_search_def sample_points_def
          matches_def ingested_payload_keys format_result_def getitem_def source_document_def
          restrict_map_def)
  then obtain h where h: "fst (search_similar sample_env ''what is alpha?'' (Some ''doc-a'') 5 (1/2)) = Inr [h]"
     "source_document h = Inr \<lparr>content = ''alpha'', page_number = None, confidence_score = 3/4\<rparr>"
    by blast
  obtain cs where cs: "search_similar sample_env ''what is alpha?'' (Some ''doc-a'') 5 (1/2) = (Inr [h], cs)"
    using h(1) by (cases "search_similar sample_env ''what is alpha?'' (Some ''doc-a'') 5 (1/2)") simp
  have g: "fst (generate_response sample_env q ds hist fn) = Inr ''answer''" for q ds hist fn
    by (simp add: generate_response_def sample_env_def Let_def)
  show "fst (chat_with_document sample_env [(''doc-a'', sample_doc COMPLETED)] sample_request)
       = Inr \<lparr>response = ''answer'',
              sources = [\<lparr>content = ''alpha'', page_number = None, confidence_score = 3/4\<rparr>],
              resp_document_id = ''doc-a''\<rparr>"
    using cs h(2) g[of "''what is alpha?''" "[\<lparr>content = ''alpha'', page_number = None, confidence_score = 3/4\<rparr>]" "Some []" "Some ''a.pdf''"]
    by (auto simp: chat_with_document_def sample_request_def sample_doc_def
             split: prod.splits sum.splits)
qed

section \<open>Properties of the ingestion task\<close>

lemma run_pipeline_updates:
  "run_pipeline e task_id document_id path filename metadata = (us, r, cs) \<Longrightarrow>
     map pm_progress us \<in> {[], [10], [10, 30, 50], [10, 30, 50, 90]}
     \<and> (\<forall>res. r = Inr res \<longrightarrow>
            map pm_progress us = [10, 30, 50, 90] \<and> tr_progress res = 100 \<and> tr_status res = COMPLETED)"
  by (auto simp: run_pipeline_def progress_update_def Let_def
           split: option.splits sum.splits prod.splits)

text \<open>
  Claim C8, as amended. Within one execution of the task the progress passed to the state
  updates never decreases (it runs through 10, 30, 50, 90, as far as the execution gets), and
  an execution that succeeds ends with the result's 100 after them. An execution that fails
  and has no retry left returns a result whose progress is 0.
\<close>

theorem progress_updates_non_decreasing:
  assumes "process_document_task e retries task_id document_id path filename metadata = (us, out, cs)"
  shows "sorted (map pm_progress us)
       \<and> (\<forall>r. out = Returned r \<and> tr_status r = COMPLETED \<longrightarrow> sorted (reported_progress (us, out, cs)))
       \<and> (\<forall>r. out = Returned r \<and> tr_status r = FAILED \<longrightarrow> tr_progress r = 0)"
proof -
  obtain us' r' cs' where p: "run_pipeline e task_id document_id path filename metadata = (us', r', cs')"
    by (cases "run_pipeline e task_id document_id path filename metadata") auto
  from run_pipeline_updates[OF p] have
    u: "map pm_progress us' \<in> {[], [10], [10, 30, 50], [10, 30, 50, 90]}"
    and v: "\<forall>res. r' = Inr res \<longrightarrow>
            map pm_progress us' = [10, 30, 50, 90] \<and> tr_progress res = 100 \<and> tr_status res = COMPLETED"
    by blast+
  show ?thesis
  proof (cases r')
    case (Inl x)
    with assms p have "us = us'" "out = (if retries < max_retries then RaisedRetry (60 * (retries + 1))
           else Returned (error_result document_id x))"
      by (auto simp: process_document_task_def)
    with u show ?thesis
      by (auto simp: reported_progress_def error_result_def split: if_splits)
  next
    case (Inr res)
    with assms p have "us = us'" "out = Returned res"
      by (auto simp: process_document_task_def)
    with u v Inr show ?thesis
      by (auto simp: reported_progress_def)
  qed
qed

text \<open>The concrete world, field by field, and an ingestion in it.\<close>

lemma sample_env_fields:
  "embed_text sample_env = (\<lambda>texts task. NomicEmbeddings (map (\<lambda>t. replicate 768 0) texts))"
  "client_search sample_env = index_search (\<lambda>q v. 3/4) sample_points"
  "client_scroll sample_env = (\<lambda>f n. Inr [])"
  "client_upsert sample_env = (\<lambda>ps. None)"
  "completions_create sample_env = (\<lambda>ms. Inr [''answer''])"
  "split_text sample_env = (\<lambda>t. if t = [] then [] else [t])"
  "uuid4 sample_env = (\<lambda>i. ''id'')"
  "format_status sample_env = status_value"
  "doc_processor_initialize sample_env = None"
  "vector_store_initialize sample_env = None"
  "extract_text_from_pdf sample_env = (\<lambda>p. Inr (''alpha'', sample_pdf))"
  by (simp_all add: sample_env_def)

lemma sample_process_document:
  "process_document sample_env d ''alpha'' f md =
     (Inr 1, [EmbedText [''alpha''] search_document,
              QdrantUpsert [\<lparr>point_id = ''id'', point_vector = replicate 768 0,
                              point_payload = point_metadata d f 0 ''alpha'' md\<rparr>]])"
  by (simp add: process_document_def sample_env_fields get_embeddings_def
        generate_embeddings_sync_def dimension_def build_points_def split_batches.simps
        batch_size_def)

lemma sample_attempt:
  "\<exists>us r cs. process_document_task sample_env 0 ''task-1'' ''doc-a'' ''uploads/a.pdf'' ''a.pdf''
            (Some upload_metadata) = (us, Returned r, cs)
     \<and> tr_status r = COMPLETED
     \<and> reported_progress (us, Returned r, cs) = [10, 30, 50, 90, 100]"
  by (simp add: process_document_task_def run_pipeline_def sample_env_fields
        sample_process_document progress_update_def reported_progress_def Let_def)

theorem progress_updates_non_decreasing_witness:
  "\<exists>us r cs. process_document_task sample_env 0 ''task-1'' ''doc-a'' ''uploads/a.pdf'' ''a.pdf''
            (Some upload_metadata) = (us, Returned r, cs)
     \<and> tr_status r = COMPLETED
     \<and> reported_progress (us, Returned r, cs) = [10, 30, 50, 90, 100]
     \<and> sorted (map pm_progress us)
     \<and> sorted (reported_progress (us, Returned r, cs))"
proof -
  from sample_attempt obtain us r cs where
    a: "process_document_task sample_env 0 ''task-1'' ''doc-a'' ''uploads/a.pdf'' ''a.pdf''
            (Some upload_metadata) = (us, Returned r, cs)"
       "tr_status r = COMPLETED"
       "reported_progress (us, Returned r, cs) = [10, 30, 50, 90, 100]" by blast
  from progress_updates_non_decreasing[OF a(1)] a(2)
  have "sorted (map pm_progress us)" "sorted (reported_progress (us, Returned r, cs))"
    by blast+
  with a show ?thesis by blast
qed

text \<open>
  Claim C8 as stated, that the reported progress of an execution never decreases, fails on
  the last execution of a job whose file cannot be read: it reports 10, then returns the
  error result with progress 0.
\<close>

theorem reported_progress_drops_counterexample:
  "\<not> sorted (reported_progress
        (process_document_task failing_env 3 ''task-1'' ''doc-a'' ''uploads/a.pdf'' ''a.pdf''
           (Some upload_metadata)))"
  by (simp add: process_document_task_def run_pipeline_def failing_env_def sample_env_def
        progress_update_def reported_progress_def error_result_def max_retries_def)

lemma failing_env_fields:
  "doc_processor_initialize failing_env = None"
  "vector_store_initialize failing_env = None"
  "extract_text_from_pdf failing_env = (\<lambda>p. Inl (Exception ''PDF processing error: EOF''))"
  by (simp_all add: failing_env_def sample_env_def)

lemma failing_attempt:
  "process_document_task failing_env retries task_id document_id path filename metadata =
     ([progress_update 10 ''Extracting text from PDF...'' document_id None None],
      if retries < max_retries then RaisedRetry (60 * (retries + 1))
      else Returned (error_result document_id (Exception ''PDF processing error: EOF'')),
      [DeleteFile path])"
  by (simp add: process_document_task_def run_pipeline_def failing_env_fields)

text \<open>The task raises \<open>Retry\<close> only while its counter is below \<open>max_retries\<close>; so a job is
  executed at most four times, with counters 0 to 3, and always ends by returning a result,
  which Celery stores as \<open>SUCCESS\<close>.\<close>

lemma process_document_task_retry_bound:
  "process_document_task e retries task_id document_id path filename metadata = (us, RaisedRetry c, cs)
     \<Longrightarrow> retries < max_retries \<and> c = 60 * (retries + 1)"
  by (auto simp: process_document_task_def split: prod.splits sum.splits if_splits)

lemma run_process_document_bounded:
  "retries \<le> max_retries \<Longrightarrow>
   run_process_document envs retries task_id document_id path filename metadata = (as, st) \<Longrightarrow>
     length as \<le> Suc max_retries - retries \<and> (\<forall>a \<in> set as. fst a \<le> max_retries)
     \<and> (\<exists>r. st = SUCCESS r)"
proof (induction envs retries task_id document_id path filename metadata arbitrary: as st
        rule: run_process_document.induct)
  case (1 envs retries task_id document_id path filename metadata)
  obtain us out cs where
    a: "process_document_task (envs retries) retries task_id document_id path filename metadata = (us, out, cs)"
    by (cases "process_document_task (envs retries) retries task_id document_id path filename metadata") auto
  show ?case
  proof (cases out)
    case (Returned r)
    with a "1.prems" show ?thesis
      by (auto simp: run_process_document.simps[of envs retries])
  next
    case (RaisedRetry c)
    with a process_document_task_retry_bound have lt: "retries < max_retries" by blast
    obtain as' st' where
      r: "run_process_document envs (Suc retries) task_id document_id path filename metadata = (as', st')"
      by (cases "run_process_document envs (Suc retries) task_id document_id path filename metadata") auto
    from lt have "Suc retries \<le> max_retries" by simp
    from "1.IH"[OF a[symmetric] refl RaisedRetry this r]
    have ih: "length as' \<le> Suc max_retries - Suc retries" "\<forall>a \<in> set as'. fst a \<le> max_retries"
      "\<exists>r. st' = SUCCESS r" by blast+
    from a RaisedRetry r "1.prems"(2) have "as = (retries, us, RaisedRetry c, cs) # as'" "st = st'"
      by (simp_all add: run_process_document.simps[of envs retries])
    with ih lt "1.prems"(1) show ?thesis by auto
  qed
qed

text \<open>When the task has returned a result, the status endpoint takes the status of the
  result and leaves the error of the document as it was.\<close>

lemma status_after_returned_result_keeps_error:
  assumes "map_of db document_id = Some info" "di_status info = PROCESSING"
    and "di_task_id info = Some t" "t \<noteq> []" "async_result t = Inr (SUCCESS task_result)"
  shows "\<exists>r db'. get_document_status async_result db document_id = (Inr r, db')
           \<and> dr_status r = tr_status task_result \<and> dr_error r = di_error info"
  using assms by (simp add: get_document_status_def document_response_def)

text \<open>
  Claim C4 says that after the retries are exhausted the document is \<open>FAILED\<close> with a
  non-empty error recorded. A job whose file cannot be read is executed with the counters
  0, 1, 2, 3 and no more; the last execution returns the error result, which holds the error
  text. The status endpoint then reads a task in state \<open>SUCCESS\<close>: it copies the status
  \<open>FAILED\<close> of the result and leaves the error of the document unset, in the response and in
  the registry.
\<close>

theorem exhausted_retries_status_has_no_error:
  "(case run_process_document (\<lambda>r. failing_env) 0 ''task-1'' ''doc-a'' ''uploads/a.pdf'' ''a.pdf''
           (Some upload_metadata) of
      (attempts, st) \<Rightarrow>
        map fst attempts = [0, 1, 2, 3]
        \<and> st = SUCCESS (error_result ''doc-a'' (Exception ''PDF processing error: EOF''))
        \<and> tr_error (error_result ''doc-a'' (Exception ''PDF processing error: EOF''))
            = Some ''PDF processing error: EOF''
        \<and> (case get_document_status (\<lambda>t. Inr st) [(''doc-a'', sample_doc PROCESSING)] ''doc-a'' of
             (Inr r, db) \<Rightarrow> dr_status r = FAILED \<and> dr_error r = None
                            \<and> map_option di_error (map_of db ''doc-a'') = Some None
           | (Inl x, db) \<Rightarrow> False))"
proof -
  have r: "run_process_document (\<lambda>r. failing_env) 0 ''task-1'' ''doc-a'' ''uploads/a.pdf'' ''a.pdf''
           (Some upload_metadata) =
     ([(0, [progress_update 10 ''Extracting text from PDF...'' ''doc-a'' None None], RaisedRetry 60, [DeleteFile ''uploads/a.pdf'']),
       (1, [progress_update 10 ''Extracting text from PDF...'' ''doc-a'' None None], RaisedRetry 120, [DeleteFile ''uploads/a.pdf'']),
       (2, [progress_update 10 ''Extracting text from PDF...'' ''doc-a'' None None], RaisedRetry 180, [DeleteFile ''uploads/a.pdf'']),
       (3, [progress_update 10 ''Extracting text from PDF...'' ''doc-a'' None None],
           Returned (error_result ''doc-a'' (Exception ''PDF processing error: EOF'')), [DeleteFile ''uploads/a.pdf''])],
      SUCCESS (error_result ''doc-a'' (Exception ''PDF processing error: EOF'')))"
    by (simp add: run_process_document.simps[of _ 0] run_process_document.simps[of _ "Suc 0"]
          run_process_document.simps[of _ "Suc (Suc 0)"]
          run_process_document.simps[of _ "Suc (Suc (Suc 0))"]
          failing_attempt max_retries_def)
  show ?thesis
    unfolding r
    by (simp add: get_document_status_def sample_doc_def error_result_def document_response_def)
qed

section \<open>Properties of the upload endpoint\<close>

text \<open>
  Claim C10 says no status, list or chat call on a stored document sees \<open>UPLOADING\<close>. When
  the enqueueing of the task raises (the broker cannot be reached), the upload answers 400
  and the record it had stored stays, with the status \<open>UPLOADING\<close>: the list endpoint and the
  status endpoint show it, and a chat request on it is refused with that status.
\<close>

theorem enqueue_failure_leaves_uploading:
  "(case upload_document [] ''a.pdf'' (Inr ''%PDF-1.4'') (Inr (''doc-a'', ''uploads/a.pdf''))
           (Inl (ExternalError ''Error 111 connecting to localhost:6379. Connection refused.'')) 1 2 of
      (r, db) \<Rightarrow>
        r = Inl (HTTPException 400 ''Error 111 connecting to localhost:6379. Connection refused.'')
        \<and> map_option di_status (map_of db ''doc-a'') = Some UPLOADING
        \<and> map dr_status (fst (list_documents db)) = [UPLOADING]
        \<and> map_sum id dr_status (fst (get_document_status (\<lambda>t. Inr PENDING) db ''doc-a'')) = Inr UPLOADING
        \<and> fst (chat_with_document sample_env db sample_request)
            = Inl (HTTPException 400 ''Document is not ready for chat. Status: uploading''))"
  by (simp add: upload_document_def list_documents_def get_document_status_def
        document_response_def chat_with_document_def sample_request_def sample_env_fields)

text \<open>An upload that answers with a document has stored it as \<open>PROCESSING\<close>.\<close>

lemma upload_document_returns_processing:
  "upload_document db filename file_read saved delayed now now' = (Inr r, db') \<Longrightarrow>
     dr_status r = PROCESSING \<and> map_option di_status (map_of db' (dr_id r)) = Some PROCESSING"
  by (auto simp: upload_document_def Let_def update_Some_unfold split: sum.splits prod.splits)

end
